theory Spec2Isabelle
  imports Main
begin

section \<open>X12 functional groups: data model\<close>

text \<open>
  The development embeds \<^verbatim>\<open>src/X12FunctionalGroup.ts\<close>. The classes it imports
  (\<^verbatim>\<open>X12Segment\<close>, \<^verbatim>\<open>X12Transaction\<close>, \<^verbatim>\<open>JSEDIFunctionalGroup\<close>) and the function
  \<^verbatim>\<open>defaultSerializationOptions\<close> are not part of the embedded file; they are modelled
  from the specification or taken as parameters, and each such definition says so.

  A JavaScript exception is a value: every method that can throw returns
  \<open>error + 'a\<close>. A method that assigns to a field of \<^verbatim>\<open>this\<close> takes the object and
  returns it updated, also when it throws after the assignment.
\<close>

datatype error =
    TypeError                  \<comment> \<open>a property read on \<^verbatim>\<open>undefined\<close>\<close>
  | IncompleteContainerError   \<comment> \<open>the error kind of section 7 of the specification\<close>

text \<open>
  Modelled from the spec: the interface \<^verbatim>\<open>X12SerializationOptions\<close> is missing; the
  fields are those of section 4.2 (the repetition separator is optional there).
\<close>

record X12SerializationOptions =
  elementDelimiter :: string
  subElementDelimiter :: string
  segmentTerminator :: string
  repetitionSeparator :: "string option"
  endOfLine :: string
  format :: bool

text \<open>
  \<^verbatim>\<open>defaultSerializationOptions\<close> is missing and the specification gives no default
  values, so it is a parameter \<open>dso\<close> of every operation that calls it. Its argument is
  optional in the constructor (\<open>None\<close> is \<^verbatim>\<open>undefined\<close>).
\<close>

type_synonym defaulting = "X12SerializationOptions option \<Rightarrow> X12SerializationOptions"

text \<open>
  Modelled from the spec: the class \<^verbatim>\<open>X12Element\<close> is missing; section 3 gives it a
  value and an ordered sequence of sub-elements. The field \<^verbatim>\<open>value\<close> is written
  \<open>val\<close>.
\<close>

record X12Element =
  val :: string
  subElements :: "string list"

text \<open>
  Modelled from the spec: the class \<^verbatim>\<open>X12Segment\<close> is missing; section 3 gives it a tag
  and an ordered sequence of elements.
\<close>

record X12Segment =
  tag :: string
  elements :: "X12Element list"

text \<open>
  Modelled from the spec: the class \<^verbatim>\<open>X12Transaction\<close> is missing; section 3 gives it a
  header, a trailer and an ordered sequence of body segments. Header and trailer are
  absent until they are set.
\<close>

record X12Transaction =
  header :: "X12Segment option"
  trailer :: "X12Segment option"
  segments :: "X12Segment list"

text \<open>
  The class of the embedded file. \<^verbatim>\<open>header\<close> and \<^verbatim>\<open>trailer\<close> are declared without an
  initialiser and the constructor does not assign them: they are \<^verbatim>\<open>undefined\<close>
  (\<open>None\<close>) until \<^verbatim>\<open>setHeader\<close> runs.
\<close>

record X12FunctionalGroup =
  header :: "X12Segment option"
  trailer :: "X12Segment option"
  transactions :: "X12Transaction list"
  options :: X12SerializationOptions

text \<open>
  Modelled from the spec: the classes of \<^verbatim>\<open>JSEDINotation\<close> are missing. Section 4.3
  gives a container the list of its header's raw values and the list of its children,
  and a leaf segment its tag and the list of its raw values.
\<close>

record JSEDISegment =
  tag :: string
  elements :: "string list"

record JSEDITransaction =
  headerElements :: "string list"
  children :: "JSEDISegment list"

record JSEDIFunctionalGroup =
  headerElements :: "string list"
  children :: "JSEDITransaction list"

section \<open>Strings\<close>

text \<open>
  The template literal \<^verbatim>\<open>`${n}`\<close> of a length: the decimal digits of a natural number,
  most significant first, no leading zero.
\<close>

definition digit :: "nat \<Rightarrow> char" where
  "digit d = ''0123456789'' ! d"

fun decimal :: "nat \<Rightarrow> string" where
  "decimal n = (if n < 10 then [digit n] else decimal (n div 10) @ [digit (n mod 10)])"

declare decimal.simps [simp del]

text \<open>Pieces with a separator between adjacent ones, and none after the last.\<close>

fun join :: "string \<Rightarrow> string list \<Rightarrow> string" where
  "join sep [] = []"
| "join sep [x] = x"
| "join sep (x # y # ys) = x @ sep @ join sep (y # ys)"

section \<open>Segments\<close>

text \<open>
  Modelled from the spec: the constructor of \<^verbatim>\<open>X12Element\<close> is missing; an element made
  from a string has that value and no sub-elements.
\<close>

definition X12Element_new :: "string \<Rightarrow> X12Element" where
  "X12Element_new v = \<lparr>val = v, subElements = []\<rparr>"

text \<open>
  Modelled from the spec: the constructor of \<^verbatim>\<open>X12Segment\<close> is missing. The segment of
  section 3 stores a tag and elements only, so the options it receives are not kept.
\<close>

definition X12Segment_new :: "string \<Rightarrow> X12SerializationOptions \<Rightarrow> X12Segment" where
  "X12Segment_new t opts = \<lparr>X12Segment.tag = t, elements = []\<rparr>"

text \<open>
  Modelled from the spec: \<^verbatim>\<open>X12Segment.setElements\<close> is missing; the segment then holds
  one element for each given value, in order.
\<close>

definition setElements :: "X12Segment \<Rightarrow> string list \<Rightarrow> X12Segment" where
  "setElements seg vs = seg\<lparr>X12Segment.elements := map X12Element_new vs\<rparr>"

text \<open>
  Modelled from the spec: \<^verbatim>\<open>X12Segment.replaceElement\<close> is missing. Positions are counted
  from 1 (section 3, and the element-addressing property of section 8). The
  specification is silent on a position outside the segment; the segment is then left as
  it is, and no theorem below depends on that case.
\<close>

definition replaceElement :: "X12Segment \<Rightarrow> string \<Rightarrow> nat \<Rightarrow> X12Segment" where
  "replaceElement seg v segmentPosition =
     (if 1 \<le> segmentPosition \<and> segmentPosition \<le> length (X12Segment.elements seg)
      then seg\<lparr>X12Segment.elements :=
                 (X12Segment.elements seg)[segmentPosition - 1 := X12Element_new v]\<rparr>
      else seg)"

text \<open>
  Modelled from the spec: \<^verbatim>\<open>X12Segment.valueOf\<close> is missing. Positions are counted from
  1. The specification is silent on what a lookup outside the segment returns: that
  result is the parameter \<open>absent\<close>.
\<close>

definition valueOf :: "string \<Rightarrow> X12Segment \<Rightarrow> nat \<Rightarrow> string" where
  "valueOf absent seg segmentPosition =
     (if 1 \<le> segmentPosition \<and> segmentPosition \<le> length (X12Segment.elements seg)
      then val (X12Segment.elements seg ! (segmentPosition - 1))
      else absent)"

text \<open>
  Modelled from the spec: the serialisation of an element and of a segment is missing.
  Section 4.2: the tag, then the elements, joined by the element delimiter, each element
  rendered as its sub-elements joined by the sub-element delimiter (or the bare value if
  it has none), followed by the segment terminator.
\<close>

definition X12Element_toString :: "X12Element \<Rightarrow> X12SerializationOptions \<Rightarrow> string" where
  "X12Element_toString e opts =
     (if subElements e = [] then val e else join (subElementDelimiter opts) (subElements e))"

definition X12Segment_toString :: "X12Segment \<Rightarrow> X12SerializationOptions \<Rightarrow> string" where
  "X12Segment_toString seg opts =
     join (elementDelimiter opts)
       (X12Segment.tag seg # map (\<lambda>e. X12Element_toString e opts) (X12Segment.elements seg))
     @ segmentTerminator opts"

section \<open>Transactions\<close>

text \<open>
  Modelled from the spec: the constructor of \<^verbatim>\<open>X12Transaction\<close> is missing. A new
  transaction has no header, no trailer and no body segment; the transaction of
  section 3 stores no options.
\<close>

definition X12Transaction_new :: "X12SerializationOptions \<Rightarrow> X12Transaction" where
  "X12Transaction_new opts =
     \<lparr>X12Transaction.header = None, trailer = None, segments = []\<rparr>"

text \<open>
  Modelled from the spec: \<^verbatim>\<open>X12Transaction.toString\<close> is missing. Section 4.2: the header
  segment, each body segment in order, the trailer segment, with the end of line between
  pieces only when \<^verbatim>\<open>format\<close> is true. Section 7: generating a container that lacks its
  header throws an \<^verbatim>\<open>IncompleteContainerError\<close>; by section 3 header and trailer are
  present together or absent together, so a missing trailer is treated alike.
\<close>

definition X12Transaction_toString ::
  "X12Transaction \<Rightarrow> X12SerializationOptions \<Rightarrow> error + string" where
  "X12Transaction_toString t opts =
     (case X12Transaction.header t of
        None \<Rightarrow> Inl IncompleteContainerError
      | Some h \<Rightarrow>
          (case X12Transaction.trailer t of
             None \<Rightarrow> Inl IncompleteContainerError
           | Some tr \<Rightarrow>
               Inr (join (if format opts then endOfLine opts else [])
                      (X12Segment_toString h opts
                         # map (\<lambda>s. X12Segment_toString s opts) (segments t)
                         @ [X12Segment_toString tr opts]))))"

section \<open>The generic notation\<close>

text \<open>
  Modelled from the spec: the constructor and the methods of \<^verbatim>\<open>JSEDIFunctionalGroup\<close>
  and \<^verbatim>\<open>JSEDITransaction\<close> are missing. \<^verbatim>\<open>addTransaction\<close> appends a child with the given
  header values and returns it; the caller then adds segments to the child it was
  handed, which is the one stored in the group. The returned reference is modelled as
  the child's index, and a segment is added through that index.
\<close>

definition JSEDIFunctionalGroup_new :: "string list \<Rightarrow> JSEDIFunctionalGroup" where
  "JSEDIFunctionalGroup_new hdr =
     \<lparr>JSEDIFunctionalGroup.headerElements = hdr, children = []\<rparr>"

definition JSEDIFunctionalGroup_addTransaction ::
  "JSEDIFunctionalGroup \<Rightarrow> string list \<Rightarrow> nat \<times> JSEDIFunctionalGroup" where
  "JSEDIFunctionalGroup_addTransaction jsen hdr =
     (length (JSEDIFunctionalGroup.children jsen),
      jsen\<lparr>JSEDIFunctionalGroup.children :=
             JSEDIFunctionalGroup.children jsen
             @ [\<lparr>JSEDITransaction.headerElements = hdr, children = []\<rparr>]\<rparr>)"

definition JSEDITransaction_addSegment ::
  "JSEDITransaction \<Rightarrow> string \<Rightarrow> string list \<Rightarrow> JSEDITransaction" where
  "JSEDITransaction_addSegment jt tg vs =
     jt\<lparr>JSEDITransaction.children :=
          JSEDITransaction.children jt @ [\<lparr>JSEDISegment.tag = tg, elements = vs\<rparr>]\<rparr>"

definition addSegment_at ::
  "JSEDIFunctionalGroup \<Rightarrow> nat \<Rightarrow> string \<Rightarrow> string list \<Rightarrow> JSEDIFunctionalGroup" where
  "addSegment_at jsen r tg vs =
     jsen\<lparr>JSEDIFunctionalGroup.children :=
            (JSEDIFunctionalGroup.children jsen)
              [r := JSEDITransaction_addSegment (JSEDIFunctionalGroup.children jsen ! r) tg vs]\<rparr>"

section \<open>The functional group\<close>

text \<open>The constructor: no transactions, the options completed by \<open>dso\<close>.\<close>

definition X12FunctionalGroup_new ::
  "defaulting \<Rightarrow> X12SerializationOptions option \<Rightarrow> X12FunctionalGroup" where
  "X12FunctionalGroup_new dso options_arg =
     \<lparr>X12FunctionalGroup.header = None, trailer = None, transactions = [],
      options = dso options_arg\<rparr>"

text \<open>
  The first statement of every method: the options given, completed, or else the stored
  ones.
\<close>

definition effective ::
  "defaulting \<Rightarrow> X12FunctionalGroup \<Rightarrow> X12SerializationOptions option \<Rightarrow> X12SerializationOptions" where
  "effective dso this options_arg =
     (case options_arg of Some opts \<Rightarrow> dso (Some opts) | None \<Rightarrow> options this)"

text \<open>
  \<^verbatim>\<open>_setTrailer\<close>: the trailer becomes a new GE segment, then receives its two elements.
  The second one reads the header, which throws when there is none; the assignment of
  the empty GE segment has happened by then.
\<close>

definition setTrailer ::
  "defaulting \<Rightarrow> string \<Rightarrow> X12FunctionalGroup \<Rightarrow> X12SerializationOptions option
     \<Rightarrow> (error + unit) \<times> X12FunctionalGroup" where
  "setTrailer dso absent this options_arg =
     (let opts = effective dso this options_arg;
          this1 = this\<lparr>X12FunctionalGroup.trailer := Some (X12Segment_new ''GE'' opts)\<rparr>
      in case X12FunctionalGroup.header this1 of
           None \<Rightarrow> (Inl TypeError, this1)
         | Some h \<Rightarrow>
             (Inr (),
              this1\<lparr>X12FunctionalGroup.trailer :=
                      Some (setElements (X12Segment_new ''GE'' opts)
                              [decimal (length (transactions this1)), valueOf absent h 6])\<rparr>))"

text \<open>\<^verbatim>\<open>setHeader\<close>: the header becomes a new GS segment with the given elements, then
  the trailer is set.\<close>

definition setHeader ::
  "defaulting \<Rightarrow> string \<Rightarrow> X12FunctionalGroup \<Rightarrow> string list \<Rightarrow> X12SerializationOptions option
     \<Rightarrow> (error + unit) \<times> X12FunctionalGroup" where
  "setHeader dso absent this els options_arg =
     (let opts = effective dso this options_arg;
          this1 = this\<lparr>X12FunctionalGroup.header :=
                        Some (setElements (X12Segment_new ''GS'' opts) els)\<rparr>
      in setTrailer dso absent this1 (Some opts))"

text \<open>
  \<^verbatim>\<open>addTransaction\<close>: the new transaction is pushed first; the trailer is read after that,
  so a group without a trailer throws with the transaction already in the list.
\<close>

definition addTransaction ::
  "defaulting \<Rightarrow> X12FunctionalGroup \<Rightarrow> X12SerializationOptions option
     \<Rightarrow> (error + X12Transaction) \<times> X12FunctionalGroup" where
  "addTransaction dso this options_arg =
     (let opts = effective dso this options_arg;
          transaction = X12Transaction_new opts;
          this1 = this\<lparr>transactions := transactions this @ [transaction]\<rparr>
      in case X12FunctionalGroup.trailer this1 of
           None \<Rightarrow> (Inl TypeError, this1)
         | Some tr \<Rightarrow>
             (Inr transaction,
              this1\<lparr>X12FunctionalGroup.trailer :=
                      Some (replaceElement tr (decimal (length (transactions this1))) 1)\<rparr>))"

text \<open>
  The loop of \<^verbatim>\<open>toString\<close>: \<open>i\<close> runs over the indices of the transactions and \<open>edi\<close>
  is the text so far.
\<close>

function toString_loop ::
  "X12SerializationOptions \<Rightarrow> X12FunctionalGroup \<Rightarrow> nat \<Rightarrow> string \<Rightarrow> error + string" where
  "toString_loop opts this i edi =
     (if i < length (transactions this) then
        (case X12Transaction_toString (transactions this ! i) opts of
           Inl e \<Rightarrow> Inl e
         | Inr s \<Rightarrow>
             toString_loop opts this (Suc i)
               ((edi @ s) @ (if format opts then endOfLine opts else [])))
      else Inr edi)"
  by pat_completeness auto
termination
  by (relation "measure (\<lambda>(opts, this, i, edi). length (transactions this) - i)") auto

declare toString_loop.simps [simp del]

text \<open>
  \<^verbatim>\<open>toString\<close>: reading the header or the trailer of a group that has none throws. The
  method assigns to no field; the object is returned as it was received.
\<close>

definition toString ::
  "defaulting \<Rightarrow> X12FunctionalGroup \<Rightarrow> X12SerializationOptions option
     \<Rightarrow> (error + string) \<times> X12FunctionalGroup" where
  "toString dso this options_arg =
     (let opts = effective dso this options_arg
      in case X12FunctionalGroup.header this of
           None \<Rightarrow> (Inl TypeError, this)
         | Some h \<Rightarrow>
             (case toString_loop opts this 0
                     (X12Segment_toString h opts @ (if format opts then endOfLine opts else [])) of
                Inl e \<Rightarrow> (Inl e, this)
              | Inr edi \<Rightarrow>
                  (case X12FunctionalGroup.trailer this of
                     None \<Rightarrow> (Inl TypeError, this)
                   | Some tr \<Rightarrow> (Inr (edi @ X12Segment_toString tr opts), this))))"

text \<open>
  \<^verbatim>\<open>toJSON\<close>: the inner \<^verbatim>\<open>forEach\<close> adds one notation segment for each body segment to
  the child with reference \<open>r\<close>; the outer one adds one child for each transaction,
  reading the transaction's header, which throws when there is none.
\<close>

fun toJSON_segments ::
  "JSEDIFunctionalGroup \<Rightarrow> nat \<Rightarrow> X12Segment list \<Rightarrow> JSEDIFunctionalGroup" where
  "toJSON_segments jsen r [] = jsen"
| "toJSON_segments jsen r (segment # rest) =
     toJSON_segments
       (addSegment_at jsen r (X12Segment.tag segment) (map val (X12Segment.elements segment)))
       r rest"

fun toJSON_transactions ::
  "JSEDIFunctionalGroup \<Rightarrow> X12Transaction list \<Rightarrow> error + JSEDIFunctionalGroup" where
  "toJSON_transactions jsen [] = Inr jsen"
| "toJSON_transactions jsen (transaction # rest) =
     (case X12Transaction.header transaction of
        None \<Rightarrow> Inl TypeError
      | Some h \<Rightarrow>
          (case JSEDIFunctionalGroup_addTransaction jsen (map val (X12Segment.elements h)) of
             (r, jsen1) \<Rightarrow>
               toJSON_transactions (toJSON_segments jsen1 r (segments transaction)) rest))"

definition toJSON :: "X12FunctionalGroup \<Rightarrow> error + JSEDIFunctionalGroup" where
  "toJSON this =
     (case X12FunctionalGroup.header this of
        None \<Rightarrow> Inl TypeError
      | Some h \<Rightarrow>
          toJSON_transactions
            (JSEDIFunctionalGroup_new (map val (X12Segment.elements h)))
            (transactions this))"

section \<open>toString with the writes of the methods it calls\<close>

text \<open>
  \<^verbatim>\<open>toString\<close> calls methods of classes that are not part of the embedded file:
  \<^verbatim>\<open>X12Segment.toString\<close> on the header and on the trailer, \<^verbatim>\<open>X12Transaction.toString\<close> on
  each transaction. In JavaScript they receive references: the segment or transaction
  that the group stores, and the options object, which is the group's own stored object
  when \<^verbatim>\<open>toString\<close> was called without options (\<^verbatim>\<open>options = this.options\<close>). Whatever
  such a method writes to these objects is a change of the group. Here the two methods
  are parameters; each returns its result or error together with the receiver and the
  options object as it leaves them, and \<open>toString_effects\<close> is \<^verbatim>\<open>toString\<close> with these
  writes carried back into the group, also when the method throws. An options argument
  given by the caller is an object of the caller: it is taken to be distinct from the
  stored one, and what is written to it is no part of the group.
\<close>

type_synonym 'r serialiser =
  "'r \<Rightarrow> X12SerializationOptions \<Rightarrow> (error + string) \<times> 'r \<times> X12SerializationOptions"

text \<open>The options object after a call, written back to the group when it is the
  stored one.\<close>

definition store_options ::
  "bool \<Rightarrow> X12SerializationOptions \<Rightarrow> X12FunctionalGroup \<Rightarrow> X12FunctionalGroup" where
  "store_options aliased opts this = (if aliased then this\<lparr>options := opts\<rparr> else this)"

function toString_loop_effects ::
  "X12Transaction serialiser \<Rightarrow> bool \<Rightarrow> X12SerializationOptions \<Rightarrow> X12FunctionalGroup
     \<Rightarrow> nat \<Rightarrow> string \<Rightarrow> (error + string) \<times> X12SerializationOptions \<times> X12FunctionalGroup" where
  "toString_loop_effects txS aliased opts this i edi =
     (if i < length (transactions this) then
        (case txS (transactions this ! i) opts of
           (r, t1, opts1) \<Rightarrow>
             (let this1 = store_options aliased opts1
                            (this\<lparr>transactions := (transactions this)[i := t1]\<rparr>)
              in case r of
                   Inl e \<Rightarrow> (Inl e, opts1, this1)
                 | Inr s \<Rightarrow>
                     toString_loop_effects txS aliased opts1 this1 (Suc i)
                       ((edi @ s) @ (if format opts1 then endOfLine opts1 else []))))
      else (Inr edi, opts, this))"
  by pat_completeness auto
termination
  by (relation "measure (\<lambda>(txS, aliased, opts, this, i, edi). length (transactions this) - i)")
     (auto simp: store_options_def)

declare toString_loop_effects.simps [simp del]

definition toString_effects ::
  "X12Segment serialiser \<Rightarrow> X12Transaction serialiser \<Rightarrow> defaulting \<Rightarrow> X12FunctionalGroup
     \<Rightarrow> X12SerializationOptions option \<Rightarrow> (error + string) \<times> X12FunctionalGroup" where
  "toString_effects segS txS dso this options_arg =
     (let aliased = (options_arg = None);
          opts = effective dso this options_arg
      in case X12FunctionalGroup.header this of
           None \<Rightarrow> (Inl TypeError, this)
         | Some h \<Rightarrow>
             (case segS h opts of
                (r1, h1, opts1) \<Rightarrow>
                  (let this1 = store_options aliased opts1
                                 (this\<lparr>X12FunctionalGroup.header := Some h1\<rparr>)
                   in case r1 of
                        Inl e \<Rightarrow> (Inl e, this1)
                      | Inr s1 \<Rightarrow>
                          (case toString_loop_effects txS aliased opts1 this1 0
                                  (s1 @ (if format opts1 then endOfLine opts1 else [])) of
                             (Inl e, opts2, this2) \<Rightarrow> (Inl e, this2)
                           | (Inr edi, opts2, this2) \<Rightarrow>
                               (case X12FunctionalGroup.trailer this2 of
                                  None \<Rightarrow> (Inl TypeError, this2)
                                | Some tr \<Rightarrow>
                                    (case segS tr opts2 of
                                       (r3, tr3, opts3) \<Rightarrow>
                                         (let this3 =
                                                store_options aliased opts3
                                                  (this2\<lparr>X12FunctionalGroup.trailer := Some tr3\<rparr>)
                                          in case r3 of
                                               Inl e \<Rightarrow> (Inl e, this3)
                                             | Inr s3 \<Rightarrow> (Inr (edi @ s3), this3))))))))"

text \<open>
  Modelled from the spec: the two methods are missing. Section 5: a generate invocation
  has no observable effect outside its return value. These are the serialisations of
  section 4.2 given above, with the receiver and the options returned as received.
\<close>

definition X12Segment_toString_effects :: "X12Segment serialiser" where
  "X12Segment_toString_effects seg opts = (Inr (X12Segment_toString seg opts), seg, opts)"

definition X12Transaction_toString_effects :: "X12Transaction serialiser" where
  "X12Transaction_toString_effects t opts = (X12Transaction_toString t opts, t, opts)"

section \<open>Vocabulary of the properties\<close>

text \<open>
  The count element of the trailer is in step with the transactions: the group has a
  trailer, the trailer has a first element, and its value is the decimal rendering of
  the number of transactions.
\<close>

definition trailer_count_synced :: "X12FunctionalGroup \<Rightarrow> bool" where
  "trailer_count_synced g =
     (case X12FunctionalGroup.trailer g of
        None \<Rightarrow> False
      | Some tr \<Rightarrow>
          (case X12Segment.elements tr of
             [] \<Rightarrow> False
           | e # _ \<Rightarrow> val e = decimal (length (transactions g))))"

text \<open>
  A sequence of \<^verbatim>\<open>addTransaction\<close> calls, one for each optional argument of the list:
  the results of the calls in order, and the group after the last one.
\<close>

fun addTransactions ::
  "defaulting \<Rightarrow> X12FunctionalGroup \<Rightarrow> X12SerializationOptions option list
     \<Rightarrow> (error + X12Transaction) list \<times> X12FunctionalGroup" where
  "addTransactions dso this [] = ([], this)"
| "addTransactions dso this (oa # oas) =
     (case addTransaction dso this oa of
        (r, this1) \<Rightarrow>
          (case addTransactions dso this1 oas of
             (rs, this2) \<Rightarrow> (r # rs, this2)))"

text \<open>A well-formed group: header and trailer are set, in the group and in each
  of its transactions.\<close>

definition complete_transaction :: "X12Transaction \<Rightarrow> bool" where
  "complete_transaction t \<longleftrightarrow>
     X12Transaction.header t \<noteq> None \<and> X12Transaction.trailer t \<noteq> None"

definition well_formed :: "X12FunctionalGroup \<Rightarrow> bool" where
  "well_formed g \<longleftrightarrow>
     X12FunctionalGroup.header g \<noteq> None \<and> X12FunctionalGroup.trailer g \<noteq> None \<and>
     list_all complete_transaction (transactions g)"

text \<open>
  The notation the claim about \<^verbatim>\<open>toJSON\<close> describes, written as a map over the tree: a
  body segment gives its tag and its element values, a transaction with header \<open>h\<close>
  gives the values of \<open>h\<close> and the notation of its body segments.
\<close>

definition segment_notation :: "X12Segment \<Rightarrow> JSEDISegment" where
  "segment_notation s =
     \<lparr>JSEDISegment.tag = X12Segment.tag s, elements = map val (X12Segment.elements s)\<rparr>"

definition transaction_notation :: "X12Segment \<Rightarrow> X12Transaction \<Rightarrow> JSEDITransaction" where
  "transaction_notation h t =
     \<lparr>JSEDITransaction.headerElements = map val (X12Segment.elements h),
      children = map segment_notation (segments t)\<rparr>"

text \<open>
  The same tree with every trailer and every list of sub-elements removed; the stored
  options, the headers, the tags and the element values stay.
\<close>

definition forget_element :: "X12Element \<Rightarrow> X12Element" where
  "forget_element e = e\<lparr>subElements := []\<rparr>"

definition forget_segment :: "X12Segment \<Rightarrow> X12Segment" where
  "forget_segment s = s\<lparr>X12Segment.elements := map forget_element (X12Segment.elements s)\<rparr>"

definition forget_transaction :: "X12Transaction \<Rightarrow> X12Transaction" where
  "forget_transaction t =
     \<lparr>X12Transaction.header = map_option forget_segment (X12Transaction.header t),
      trailer = None,
      segments = map forget_segment (segments t)\<rparr>"

definition forget_group :: "X12FunctionalGroup \<Rightarrow> X12FunctionalGroup" where
  "forget_group g =
     g\<lparr>X12FunctionalGroup.header := map_option forget_segment (X12FunctionalGroup.header g),
       X12FunctionalGroup.trailer := None,
       transactions := map forget_transaction (transactions g)\<rparr>"

section \<open>Example values\<close>

text \<open>
  A purchase-order group with one transaction, used to evaluate the theorems on a
  concrete input. The options use \<open>*\<close>, \<open>:\<close> and \<open>~\<close> as delimiters, format the
  output, and end a line with \<open>/\<close> so that the expected texts stay readable. The
  example defaulting function returns given options as they are.
\<close>

definition example_options :: X12SerializationOptions where
  "example_options =
     \<lparr>elementDelimiter = ''*'', subElementDelimiter = '':'', segmentTerminator = ''~'',
      repetitionSeparator = None, endOfLine = ''/'', format = True\<rparr>"

definition example_dso :: defaulting where
  "example_dso oa = (case oa of None \<Rightarrow> example_options | Some opts \<Rightarrow> opts)"

definition example_GS :: X12Segment where
  "example_GS =
     \<lparr>X12Segment.tag = ''GS'',
      elements =
        map X12Element_new [''PO'', ''A'', ''B'', ''20260101'', ''1200'', ''7'', ''X'', ''004010'']\<rparr>"

definition example_GE :: X12Segment where
  "example_GE = \<lparr>X12Segment.tag = ''GE'', elements = map X12Element_new [''1'', ''7'']\<rparr>"

definition example_transaction :: X12Transaction where
  "example_transaction =
     \<lparr>X12Transaction.header =
        Some \<lparr>X12Segment.tag = ''ST'', elements = map X12Element_new [''850'', ''0001'']\<rparr>,
      trailer =
        Some \<lparr>X12Segment.tag = ''SE'', elements = map X12Element_new [''3'', ''0001'']\<rparr>,
      segments =
        [\<lparr>X12Segment.tag = ''BEG'',
          elements = [X12Element_new ''00'', \<lparr>val = ''1:2'', subElements = [''1'', ''2'']\<rparr>]\<rparr>]\<rparr>"

definition example_group :: X12FunctionalGroup where
  "example_group =
     \<lparr>X12FunctionalGroup.header = Some example_GS, trailer = Some example_GE,
      transactions = [example_transaction], options = example_options\<rparr>"

text \<open>The same group with a trailer that counts five transactions.\<close>

definition inconsistent_GE :: X12Segment where
  "inconsistent_GE = \<lparr>X12Segment.tag = ''GE'', elements = map X12Element_new [''5'', ''7'']\<rparr>"

definition inconsistent_group :: X12FunctionalGroup where
  "inconsistent_group = example_group\<lparr>X12FunctionalGroup.trailer := Some inconsistent_GE\<rparr>"

text \<open>
  A segment serialiser that does write to its receiver: it returns the same text and
  replaces the elements of the segment by that text.
\<close>

definition example_caching_serialiser :: "X12Segment serialiser" where
  "example_caching_serialiser seg opts =
     (Inr (X12Segment_toString seg opts),
      seg\<lparr>X12Segment.elements := [X12Element_new (X12Segment_toString seg opts)]\<rparr>, opts)"

section \<open>Auxiliary facts\<close>

lemmas example_defs =
  example_options_def example_dso_def example_GS_def example_GE_def example_transaction_def
  example_group_def inconsistent_GE_def inconsistent_group_def

lemmas segment_defs =
  X12Element_new_def X12Segment_new_def setElements_def replaceElement_def valueOf_def
  X12Element_toString_def X12Segment_toString_def X12Transaction_new_def
  X12Transaction_toString_def

lemmas group_defs =
  X12FunctionalGroup_new_def effective_def setTrailer_def setHeader_def addTransaction_def
  Let_def

subsection \<open>Joining pieces\<close>

lemma join_snoc_pieces:
  "x @ sep @ concat (map (\<lambda>s. s @ sep) ss) @ y = join sep (x # ss @ [y])"
  by (induction ss arbitrary: x) auto

lemma join_plain_elements:
  "join d (t # map f es) = t @ concat (map (\<lambda>e. d @ f e) es)"
  by (induction es arbitrary: t) auto

lemma X12Segment_toString_plain:
  assumes "\<forall>e \<in> set (X12Segment.elements seg). subElements e = []"
  shows "X12Segment_toString seg opts =
           X12Segment.tag seg
           @ concat (map (\<lambda>e. elementDelimiter opts @ val e) (X12Segment.elements seg))
           @ segmentTerminator opts"
proof -
  from assms
  have "map (\<lambda>e. elementDelimiter opts @ X12Element_toString e opts) (X12Segment.elements seg)
      = map (\<lambda>e. elementDelimiter opts @ val e) (X12Segment.elements seg)"
    by (simp add: X12Element_toString_def)
  then show ?thesis
    by (simp only: X12Segment_toString_def join_plain_elements append_assoc)
qed

subsection \<open>Setting the header, adding transactions\<close>

lemma setHeader_trailer:
  "X12FunctionalGroup.trailer (snd (setHeader dso absent g els oa)) =
     Some \<lparr>X12Segment.tag = ''GE'',
           elements =
             [X12Element_new (decimal (length (transactions g))),
              X12Element_new
                (valueOf absent
                   \<lparr>X12Segment.tag = ''GS'', elements = map X12Element_new els\<rparr> 6)]\<rparr>"
  by (simp add: setHeader_def setTrailer_def Let_def setElements_def X12Segment_new_def)

lemma setHeader_transactions:
  "transactions (snd (setHeader dso absent g els oa)) = transactions g"
  by (simp add: setHeader_def setTrailer_def Let_def)

lemma setHeader_synced: "trailer_count_synced (snd (setHeader dso absent g els oa))"
  by (simp add: trailer_count_synced_def setHeader_trailer setHeader_transactions
        X12Element_new_def)

lemma addTransaction_synced:
  "trailer_count_synced g \<Longrightarrow> trailer_count_synced (snd (addTransaction dso g oa))"
  by (auto simp: trailer_count_synced_def addTransaction_def Let_def replaceElement_def
        X12Element_new_def
      split: option.splits list.splits)

lemma addTransactions_Cons_state:
  "snd (addTransactions dso g (oa # oas)) =
     snd (addTransactions dso (snd (addTransaction dso g oa)) oas)"
  by (simp split: prod.splits)

lemma addTransactions_synced:
  "trailer_count_synced g \<Longrightarrow> trailer_count_synced (snd (addTransactions dso g oas))"
proof (induction oas arbitrary: g)
  case Nil
  then show ?case by simp
next
  case (Cons oa oas)
  from Cons.prems have "trailer_count_synced (snd (addTransaction dso g oa))"
    by (rule addTransaction_synced)
  from Cons.IH[OF this] show ?case
    by (simp only: addTransactions_Cons_state)
qed

lemma addTransaction_defined:
  "X12FunctionalGroup.trailer g \<noteq> None \<Longrightarrow>
   (\<exists>t. fst (addTransaction dso g oa) = Inr t) \<and>
   X12FunctionalGroup.trailer (snd (addTransaction dso g oa)) \<noteq> None"
  by (auto simp: addTransaction_def Let_def)

lemma addTransactions_defined:
  "X12FunctionalGroup.trailer g \<noteq> None \<Longrightarrow>
   \<forall>r \<in> set (fst (addTransactions dso g oas)). \<exists>t. r = Inr t"
proof (induction oas arbitrary: g)
  case Nil
  then show ?case by simp
next
  case (Cons oa oas)
  from addTransaction_defined[OF Cons.prems, of dso oa]
  obtain t where t: "fst (addTransaction dso g oa) = Inr t"
    and tr: "X12FunctionalGroup.trailer (snd (addTransaction dso g oa)) \<noteq> None"
    by blast
  from Cons.IH[OF tr] t show ?case
    by (auto split: prod.splits)
qed

subsection \<open>The loop of toString\<close>

lemma toString_loop_eq:
  "map (\<lambda>t. X12Transaction_toString t opts) (drop i (transactions this)) = map Inr ss \<Longrightarrow>
   toString_loop opts this i edi =
     Inr (edi @ concat (map (\<lambda>s. s @ (if format opts then endOfLine opts else [])) ss))"
proof (induction opts this i edi arbitrary: ss rule: toString_loop.induct)
  case (1 opts this i edi)
  show ?case
  proof (cases "i < length (transactions this)")
    case True
    then have d: "drop i (transactions this) =
        transactions this ! i # drop (Suc i) (transactions this)"
      by (simp add: Cons_nth_drop_Suc)
    with "1.prems" obtain s ss' where ss: "ss = s # ss'"
      and s: "X12Transaction_toString (transactions this ! i) opts = Inr s"
      and rest: "map (\<lambda>t. X12Transaction_toString t opts) (drop (Suc i) (transactions this)) =
          map Inr ss'"
      by (cases ss) auto
    from "1.IH"[OF True s rest] show ?thesis
      using True s ss by (subst toString_loop.simps) simp
  next
    case False
    with "1.prems" show ?thesis
      by (subst toString_loop.simps) simp
  qed
qed

lemma toString_result:
  assumes "X12FunctionalGroup.header g = Some h"
    and "X12FunctionalGroup.trailer g = Some tr"
    and "opts = effective dso g oa"
    and "map (\<lambda>t. X12Transaction_toString t opts) (transactions g) = map Inr ss"
  shows "fst (toString dso g oa) =
           Inr ((X12Segment_toString h opts @ (if format opts then endOfLine opts else []))
                @ concat (map (\<lambda>s. s @ (if format opts then endOfLine opts else [])) ss)
                @ X12Segment_toString tr opts)"
proof -
  from assms(4)
  have "map (\<lambda>t. X12Transaction_toString t opts) (drop 0 (transactions g)) = map Inr ss"
    by simp
  from toString_loop_eq[OF this] show ?thesis
    using assms(1-3) by (simp add: toString_def Let_def)
qed

lemma complete_transaction_toString:
  "complete_transaction t \<Longrightarrow> \<exists>s. X12Transaction_toString t opts = Inr s"
  by (auto simp: complete_transaction_def X12Transaction_toString_def)

lemma complete_transactions_toString:
  "list_all complete_transaction ts \<Longrightarrow>
   \<exists>ss. map (\<lambda>t. X12Transaction_toString t opts) ts = map Inr ss"
proof (induction ts)
  case Nil
  then show ?case by simp
next
  case (Cons t ts)
  then obtain s ss where "X12Transaction_toString t opts = Inr s"
    and "map (\<lambda>t. X12Transaction_toString t opts) ts = map Inr ss"
    using complete_transaction_toString[of t opts] by auto
  then have "map (\<lambda>t. X12Transaction_toString t opts) (t # ts) = map Inr (s # ss)"
    by simp
  then show ?case by blast
qed

subsection \<open>toString with the writes of its callees\<close>

text \<open>
  When the transaction serialiser leaves its receiver and the options as they were, the
  loop leaves the group and the options as they were. The local options are the stored
  ones whenever the two are the same object.
\<close>

lemma toString_loop_effects_frame:
  "(\<And>t opts. snd (txS t opts) = (t, opts)) \<Longrightarrow>
   (aliased \<longrightarrow> options this = opts) \<Longrightarrow>
   snd (toString_loop_effects txS aliased opts this i edi) = (opts, this)"
proof (induction txS aliased opts this i edi rule: toString_loop_effects.induct)
  case (1 txS aliased opts this i edi)
  show ?case
  proof (cases "i < length (transactions this)")
    case True
    define r where "r = fst (txS (transactions this ! i) opts)"
    have call: "txS (transactions this ! i) opts = (r, transactions this ! i, opts)"
      using "1.prems"(1)[of "transactions this ! i" opts] by (simp add: r_def prod_eq_iff)
    have same: "store_options aliased opts
        (this\<lparr>transactions := (transactions this)[i := transactions this ! i]\<rparr>) = this"
      using "1.prems"(2) by (simp add: store_options_def)
    show ?thesis
    proof (cases r)
      case (Inl e)
      with True call same show ?thesis
        by (subst toString_loop_effects.simps) simp
    next
      case (Inr s)
      have "snd (toString_loop_effects txS aliased opts this (Suc i)
               ((edi @ s) @ (if format opts then endOfLine opts else []))) = (opts, this)"
        by (rule "1.IH"[OF True call[symmetric] refl refl Inr "1.prems"(1),
              unfolded same, OF "1.prems"(2)])
      with True call same Inr show ?thesis
        by (subst toString_loop_effects.simps) simp
    qed
  next
    case False
    then show ?thesis
      by (subst toString_loop_effects.simps) simp
  qed
qed

text \<open>With the serialisers of the specification, \<open>toString_effects\<close> is \<open>toString\<close>.\<close>

lemma toString_loop_effects_pure:
  "(aliased \<longrightarrow> options this = opts) \<Longrightarrow>
   toString_loop_effects X12Transaction_toString_effects aliased opts this i edi =
     (toString_loop opts this i edi, opts, this)"
proof (induction opts this i edi rule: toString_loop.induct)
  case (1 opts this i edi)
  have same: "store_options aliased opts
      (this\<lparr>transactions := (transactions this)[i := transactions this ! i]\<rparr>) = this"
    using "1.prems" by (simp add: store_options_def)
  have call: "X12Transaction_toString_effects (transactions this ! i) opts =
      (X12Transaction_toString (transactions this ! i) opts, transactions this ! i, opts)"
    by (simp add: X12Transaction_toString_effects_def)
  show ?case
  proof (cases "i < length (transactions this)")
    case True
    show ?thesis
    proof (cases "X12Transaction_toString (transactions this ! i) opts")
      case (Inl e)
      with True same call show ?thesis
        by (subst toString_loop_effects.simps, subst toString_loop.simps) simp
    next
      case (Inr s)
      from "1.IH"[OF True Inr "1.prems"] True Inr same call show ?thesis
        by (subst toString_loop_effects.simps, subst toString_loop.simps) simp
    qed
  next
    case False
    then show ?thesis
      by (subst toString_loop_effects.simps, subst toString_loop.simps) simp
  qed
qed

lemma toString_effects_pure:
  "toString_effects X12Segment_toString_effects X12Transaction_toString_effects dso g oa =
     toString dso g oa"
proof -
  have al: "oa = None \<longrightarrow> options g = effective dso g oa"
    by (simp add: effective_def)
  have same: "\<And>h. X12FunctionalGroup.header g = Some h \<Longrightarrow>
      store_options (oa = None) (effective dso g oa)
        (g\<lparr>X12FunctionalGroup.header := Some h\<rparr>) = g"
    using al by (simp add: store_options_def)
  have same': "\<And>tr. X12FunctionalGroup.trailer g = Some tr \<Longrightarrow>
      store_options (oa = None) (effective dso g oa)
        (g\<lparr>X12FunctionalGroup.trailer := Some tr\<rparr>) = g"
    using al by (simp add: store_options_def)
  have seg: "\<And>s opts. X12Segment_toString_effects s opts =
      (Inr (X12Segment_toString s opts), s, opts)"
    by (simp add: X12Segment_toString_effects_def)
  show ?thesis
    by (simp add: toString_effects_def toString_def Let_def seg
          same same' toString_loop_effects_pure[OF al]
        split: option.splits sum.splits)
qed

text \<open>A serialiser that writes to its receiver changes the group: the model does
  carry the writes of the callees.\<close>

lemma writing_serialiser_changes_group:
  "snd (toString_effects example_caching_serialiser X12Transaction_toString_effects
          example_dso example_group None) \<noteq> example_group"
  by (simp add: toString_effects_def Let_def example_caching_serialiser_def
        X12Transaction_toString_effects_def toString_loop_effects.simps store_options_def
        effective_def example_group_def example_GS_def example_GE_def example_options_def
        example_transaction_def X12Element_new_def X12Transaction_toString_def)

subsection \<open>The loops of toJSON\<close>

lemma addSegment_at_notation:
  "addSegment_at jsen r (X12Segment.tag s) (map val (X12Segment.elements s)) =
     jsen\<lparr>JSEDIFunctionalGroup.children :=
            (JSEDIFunctionalGroup.children jsen)
              [r := (JSEDIFunctionalGroup.children jsen ! r)
                      \<lparr>JSEDITransaction.children :=
                         JSEDITransaction.children (JSEDIFunctionalGroup.children jsen ! r)
                         @ [segment_notation s]\<rparr>]\<rparr>"
  by (simp add: addSegment_at_def JSEDITransaction_addSegment_def segment_notation_def)

lemma toJSON_segments_eq:
  "r < length (JSEDIFunctionalGroup.children jsen) \<Longrightarrow>
   toJSON_segments jsen r segs =
     jsen\<lparr>JSEDIFunctionalGroup.children :=
            (JSEDIFunctionalGroup.children jsen)
              [r := (JSEDIFunctionalGroup.children jsen ! r)
                      \<lparr>JSEDITransaction.children :=
                         JSEDITransaction.children (JSEDIFunctionalGroup.children jsen ! r)
                         @ map segment_notation segs\<rparr>]\<rparr>"
proof (induction segs arbitrary: jsen)
  case Nil
  then show ?case by simp
next
  case (Cons s segs)
  let ?j = "addSegment_at jsen r (X12Segment.tag s) (map val (X12Segment.elements s))"
  from Cons.prems have len: "r < length (JSEDIFunctionalGroup.children ?j)"
    by (simp add: addSegment_at_def)
  show ?case
    using Cons.prems
    by (simp add: Cons.IH[OF len]) (simp add: addSegment_at_notation)
qed

lemma toJSON_transactions_total:
  "toJSON_transactions jsen ts =
     (if None \<in> X12Transaction.header ` set ts then Inl TypeError
      else Inr (jsen\<lparr>JSEDIFunctionalGroup.children :=
                   JSEDIFunctionalGroup.children jsen
                   @ map (\<lambda>t. transaction_notation (the (X12Transaction.header t)) t) ts\<rparr>))"
proof (induction ts arbitrary: jsen)
  case Nil
  then show ?case by simp
next
  case (Cons t ts)
  show ?case
  proof (cases "X12Transaction.header t")
    case None
    then have "None \<in> X12Transaction.header ` set (t # ts)"
      by (metis image_eqI list.set_intros(1))
    with None show ?thesis by simp
  next
    case (Some h)
    then have mem: "None \<in> X12Transaction.header ` set (t # ts) \<longleftrightarrow>
        None \<in> X12Transaction.header ` set ts"
      by auto
    show ?thesis
      unfolding mem
      using Some
      by (simp add: JSEDIFunctionalGroup_addTransaction_def Cons.IH toJSON_segments_eq
            transaction_notation_def nth_append)
  qed
qed

lemma forget_segment_sel:
  "X12Segment.tag (forget_segment s) = X12Segment.tag s"
  "map val (X12Segment.elements (forget_segment s)) = map val (X12Segment.elements s)"
  by (simp_all add: forget_segment_def forget_element_def comp_def)

lemma forget_transaction_sel:
  "X12Transaction.header (forget_transaction t) =
     map_option forget_segment (X12Transaction.header t)"
  "segments (forget_transaction t) = map forget_segment (segments t)"
  by (simp_all add: forget_transaction_def)

lemma toJSON_segments_forget:
  "toJSON_segments jsen r (map forget_segment segs) = toJSON_segments jsen r segs"
  by (induction segs arbitrary: jsen) (simp_all add: forget_segment_sel)

lemma toJSON_transactions_forget:
  "toJSON_transactions jsen (map forget_transaction ts) = toJSON_transactions jsen ts"
proof (induction ts arbitrary: jsen)
  case Nil
  then show ?case by simp
next
  case (Cons t ts)
  show ?case
    by (cases "X12Transaction.header t")
       (simp_all add: forget_transaction_sel forget_segment_sel toJSON_segments_forget Cons.IH
          split: prod.splits)
qed

section \<open>The claims\<close>

text \<open>
  C1. On a group on which \<^verbatim>\<open>setHeader\<close> has been called, after any sequence of
  \<^verbatim>\<open>addTransaction\<close> calls, the first element of the trailer is the number of
  transactions as a decimal string. \<^verbatim>\<open>setHeader\<close> establishes this from any state of the
  group, every \<^verbatim>\<open>addTransaction\<close> call preserves it whatever options it is given, and so
  it holds after \<^verbatim>\<open>setHeader\<close> followed by any list of \<^verbatim>\<open>addTransaction\<close> calls.
\<close>

theorem count_synchronized:
  "trailer_count_synced (snd (setHeader dso absent g els oa)) \<and>
   (trailer_count_synced g \<longrightarrow> trailer_count_synced (snd (addTransaction dso g oa'))) \<and>
   trailer_count_synced (snd (addTransactions dso (snd (setHeader dso absent g els oa)) oas))"
  by (simp add: setHeader_synced addTransaction_synced addTransactions_synced)

theorem count_synchronized_witness:
  "trailer_count_synced example_group \<and>
   trailer_count_synced (snd (addTransaction example_dso example_group None)) \<and>
   X12FunctionalGroup.trailer (snd (addTransaction example_dso example_group None)) =
     Some \<lparr>X12Segment.tag = ''GE'', elements = map X12Element_new [''2'', ''7'']\<rparr>"
proof -
  have h: "trailer_count_synced example_group"
    by (simp add: trailer_count_synced_def example_defs segment_defs decimal.simps digit_def)
  have t: "X12FunctionalGroup.trailer (snd (addTransaction example_dso example_group None)) =
     Some \<lparr>X12Segment.tag = ''GE'', elements = map X12Element_new [''2'', ''7'']\<rparr>"
    by (simp add: example_defs segment_defs group_defs decimal.simps digit_def)
  from count_synchronized[of example_dso "[]" example_group "[]" None None "[]"] h t
  show ?thesis by blast
qed

text \<open>
  C4. For a group with header \<open>h\<close> and trailer \<open>tr\<close> whose transactions serialise to the
  texts \<open>ss\<close>, \<^verbatim>\<open>toString\<close> returns the serialised header, the texts \<open>ss\<close> in the order of
  the transactions and the serialised trailer, joined by the end-of-line string when
  \<^verbatim>\<open>format\<close> holds in the effective options and by nothing otherwise; nothing follows
  the trailer.
\<close>

theorem toString_concatenation:
  assumes "X12FunctionalGroup.header g = Some h"
    and "X12FunctionalGroup.trailer g = Some tr"
    and "opts = effective dso g oa"
    and "map (\<lambda>t. X12Transaction_toString t opts) (transactions g) = map Inr ss"
  shows "fst (toString dso g oa) =
           Inr (join (if format opts then endOfLine opts else [])
                  (X12Segment_toString h opts # ss @ [X12Segment_toString tr opts]))"
  using toString_result[OF assms] join_snoc_pieces[of "X12Segment_toString h opts" _ ss]
  by simp

theorem toString_concatenation_witness:
  "X12FunctionalGroup.header example_group = Some example_GS \<and>
   X12FunctionalGroup.trailer example_group = Some example_GE \<and>
   example_options = effective example_dso example_group None \<and>
   map (\<lambda>t. X12Transaction_toString t example_options) (transactions example_group) =
     map Inr [''ST*850*0001~/BEG*00*1:2~/SE*3*0001~''] \<and>
   fst (toString example_dso example_group None) =
     Inr ''GS*PO*A*B*20260101*1200*7*X*004010~/ST*850*0001~/BEG*00*1:2~/SE*3*0001~/GE*1*7~''"
proof -
  have h: "X12FunctionalGroup.header example_group = Some example_GS"
    by (simp add: example_group_def)
  have tr: "X12FunctionalGroup.trailer example_group = Some example_GE"
    by (simp add: example_group_def)
  have o: "example_options = effective example_dso example_group None"
    by (simp add: effective_def example_group_def)
  have ts: "map (\<lambda>t. X12Transaction_toString t example_options) (transactions example_group) =
     map Inr [''ST*850*0001~/BEG*00*1:2~/SE*3*0001~'']"
    by (simp add: example_defs segment_defs)
  from toString_concatenation[OF h tr o ts] h tr o ts show ?thesis
    by (simp add: example_defs segment_defs)
qed

text \<open>
  C5. \<^verbatim>\<open>toString\<close> does not recompute the trailer: the text it returns ends with the
  serialisation of the trailer segment as it is stored, whatever the number of
  transactions is, and \<^verbatim>\<open>toString\<close> succeeds without comparing the two. When the elements
  of the trailer have no sub-elements, that serialisation is the tag, then each stored
  value after an element delimiter, then the segment terminator. The example evaluated
  after the theorem is a group with one transaction whose trailer says five.
\<close>

theorem toString_trailer_verbatim:
  assumes "X12FunctionalGroup.header g = Some h"
    and "X12FunctionalGroup.trailer g = Some tr"
    and "opts = effective dso g oa"
    and "map (\<lambda>t. X12Transaction_toString t opts) (transactions g) = map Inr ss"
  shows "fst (toString dso g oa) =
           Inr ((X12Segment_toString h opts @ (if format opts then endOfLine opts else []))
                @ concat (map (\<lambda>s. s @ (if format opts then endOfLine opts else [])) ss)
                @ X12Segment_toString tr opts)
         \<and> ((\<forall>e \<in> set (X12Segment.elements tr). subElements e = []) \<longrightarrow>
              X12Segment_toString tr opts =
                X12Segment.tag tr
                @ concat (map (\<lambda>e. elementDelimiter opts @ val e) (X12Segment.elements tr))
                @ segmentTerminator opts)"
  using toString_result[OF assms] X12Segment_toString_plain[of tr opts]
  by blast

theorem toString_trailer_verbatim_witness:
  "X12FunctionalGroup.header inconsistent_group = Some example_GS \<and>
   X12FunctionalGroup.trailer inconsistent_group = Some inconsistent_GE \<and>
   example_options = effective example_dso inconsistent_group None \<and>
   map (\<lambda>t. X12Transaction_toString t example_options) (transactions inconsistent_group) =
     map Inr [''ST*850*0001~/BEG*00*1:2~/SE*3*0001~''] \<and>
   map subElements (X12Segment.elements inconsistent_GE) = [[], []] \<and>
   val (hd (X12Segment.elements inconsistent_GE))
     \<noteq> decimal (length (transactions inconsistent_group)) \<and>
   fst (toString example_dso inconsistent_group None) =
     Inr ''GS*PO*A*B*20260101*1200*7*X*004010~/ST*850*0001~/BEG*00*1:2~/SE*3*0001~/GE*5*7~''"
proof -
  have h: "X12FunctionalGroup.header inconsistent_group = Some example_GS"
    by (simp add: example_group_def inconsistent_group_def)
  have tr: "X12FunctionalGroup.trailer inconsistent_group = Some inconsistent_GE"
    by (simp add: example_group_def inconsistent_group_def)
  have o: "example_options = effective example_dso inconsistent_group None"
    by (simp add: effective_def example_group_def inconsistent_group_def)
  have ts: "map (\<lambda>t. X12Transaction_toString t example_options)
      (transactions inconsistent_group) = map Inr [''ST*850*0001~/BEG*00*1:2~/SE*3*0001~'']"
    by (simp add: example_defs segment_defs)
  have pl: "\<forall>e \<in> set (X12Segment.elements inconsistent_GE). subElements e = []"
    by (simp add: inconsistent_GE_def X12Element_new_def)
  have ne: "val (hd (X12Segment.elements inconsistent_GE))
      \<noteq> decimal (length (transactions inconsistent_group))"
    by (simp add: example_defs segment_defs decimal.simps digit_def)
  have pl': "map subElements (X12Segment.elements inconsistent_GE) = [[], []]"
    by (simp add: inconsistent_GE_def X12Element_new_def)
  from toString_trailer_verbatim[OF h tr o ts] h tr o ts pl pl' ne show ?thesis
    by (simp add: example_defs segment_defs)
qed

text \<open>
  C6, as the claim states it, fails: \<^verbatim>\<open>toString\<close> on a group whose header was never set
  reads a property of \<^verbatim>\<open>undefined\<close>, which is a \<^verbatim>\<open>TypeError\<close>, not an
  \<^verbatim>\<open>IncompleteContainerError\<close>. The input is a freshly constructed group.
\<close>

theorem missing_header_counterexample:
  "fst (toString example_dso (X12FunctionalGroup_new example_dso None) None) = Inl TypeError \<and>
   fst (toString example_dso (X12FunctionalGroup_new example_dso None) None)
     \<noteq> Inl IncompleteContainerError"
  by (simp add: toString_def X12FunctionalGroup_new_def Let_def)

text \<open>
  C6, amended. \<^verbatim>\<open>toString\<close> returns a text on every well-formed group, and on every group
  whose header is missing it throws a \<^verbatim>\<open>TypeError\<close>.
\<close>

theorem toString_failure_modes:
  "(well_formed g \<longrightarrow> (\<exists>s. fst (toString dso g oa) = Inr s)) \<and>
   (X12FunctionalGroup.header g = None \<longrightarrow> fst (toString dso g oa) = Inl TypeError)"
proof (intro conjI impI)
  assume wf: "well_formed g"
  then obtain h tr where h: "X12FunctionalGroup.header g = Some h"
    and tr: "X12FunctionalGroup.trailer g = Some tr"
    by (auto simp: well_formed_def)
  from wf obtain ss where
    "map (\<lambda>t. X12Transaction_toString t (effective dso g oa)) (transactions g) = map Inr ss"
    using complete_transactions_toString[of "transactions g" "effective dso g oa"]
    by (auto simp: well_formed_def)
  from toString_result[OF h tr refl this] show "\<exists>s. fst (toString dso g oa) = Inr s"
    by blast
next
  assume "X12FunctionalGroup.header g = None"
  then show "fst (toString dso g oa) = Inl TypeError"
    by (simp add: toString_def Let_def)
qed

theorem toString_failure_modes_witness:
  "well_formed example_group \<and>
   (\<exists>s. fst (toString example_dso example_group None) = Inr s) \<and>
   X12FunctionalGroup.header (X12FunctionalGroup_new example_dso None) = None \<and>
   fst (toString example_dso (X12FunctionalGroup_new example_dso None) None) = Inl TypeError"
proof -
  have wf: "well_formed example_group"
    by (simp add: well_formed_def complete_transaction_def example_defs)
  have nh: "X12FunctionalGroup.header (X12FunctionalGroup_new example_dso None) = None"
    by (simp add: X12FunctionalGroup_new_def)
  from toString_failure_modes[of example_group example_dso None] wf
    toString_failure_modes[of "X12FunctionalGroup_new example_dso None" example_dso None] nh
  show ?thesis by blast
qed

text \<open>
  C7. \<^verbatim>\<open>toString\<close> leaves the group as it was: header, trailer with its count element,
  transactions and stored options are the same before and after the call, for every
  group and every options argument, also when the call throws; and a second call with
  the same options returns the same result. The methods \<^verbatim>\<open>toString\<close> calls on the
  segments and transactions are outside the embedded file and are parameters that may
  write to their receiver and to the options object. The statement holds whenever they
  leave both as they were, as section 5 of the specification says of every generate
  invocation: the code of \<^verbatim>\<open>toString\<close> itself adds no write to the group. It does not
  hold for a callee that writes (\<open>writing_serialiser_changes_group\<close>).
\<close>

theorem toString_frame:
  assumes seg_ro: "\<And>s opts. snd (segS s opts) = (s, opts)"
    and tx_ro: "\<And>t opts. snd (txS t opts) = (t, opts)"
  shows "snd (toString_effects segS txS dso g oa) = g \<and>
         fst (toString_effects segS txS dso (snd (toString_effects segS txS dso g oa)) oa) =
           fst (toString_effects segS txS dso g oa)"
proof -
  let ?opts = "effective dso g oa"
  have al: "oa = None \<longrightarrow> options g = ?opts"
    by (simp add: effective_def)
  have frame: "snd (toString_effects segS txS dso g oa) = g"
  proof (cases "X12FunctionalGroup.header g")
    case None
    then show ?thesis by (simp add: toString_effects_def Let_def)
  next
    case (Some h)
    define r1 where "r1 = fst (segS h ?opts)"
    have call1: "segS h ?opts = (r1, h, ?opts)"
      using seg_ro[of h ?opts] by (simp add: r1_def prod_eq_iff)
    have same1: "store_options (oa = None) ?opts
        (g\<lparr>X12FunctionalGroup.header := Some h\<rparr>) = g"
      using al Some by (simp add: store_options_def)
    show ?thesis
    proof (cases r1)
      case (Inl e)
      with Some call1 same1 show ?thesis
        by (simp add: toString_effects_def Let_def)
    next
      case s1: (Inr s1)
      let ?edi0 = "s1 @ (if format ?opts then endOfLine ?opts else [])"
      define r2 where "r2 = fst (toString_loop_effects txS (oa = None) ?opts g 0 ?edi0)"
      have call2: "toString_loop_effects txS (oa = None) ?opts g 0 ?edi0 = (r2, ?opts, g)"
        using toString_loop_effects_frame[of txS "oa = None" g ?opts 0 ?edi0, OF tx_ro al]
        by (simp add: r2_def prod_eq_iff)
      show ?thesis
      proof (cases r2)
        case (Inl e)
        with Some call1 same1 s1 call2 show ?thesis
          by (simp add: toString_effects_def Let_def)
      next
        case edi: (Inr edi)
        show ?thesis
        proof (cases "X12FunctionalGroup.trailer g")
          case None
          with Some call1 same1 s1 call2 edi show ?thesis
            by (simp add: toString_effects_def Let_def)
        next
          case tr: (Some tr)
          define r3 where "r3 = fst (segS tr ?opts)"
          have call3: "segS tr ?opts = (r3, tr, ?opts)"
            using seg_ro[of tr ?opts] by (simp add: r3_def prod_eq_iff)
          have same3: "store_options (oa = None) ?opts
              (g\<lparr>X12FunctionalGroup.trailer := Some tr\<rparr>) = g"
            using al tr by (simp add: store_options_def)
          from Some call1 same1 s1 call2 edi tr call3 same3 show ?thesis
            by (cases r3) (simp_all add: toString_effects_def Let_def)
        qed
      qed
    qed
  qed
  then show ?thesis by simp
qed

theorem toString_frame_witness:
  "(\<forall>s opts. snd (X12Segment_toString_effects s opts) = (s, opts)) \<and>
   (\<forall>t opts. snd (X12Transaction_toString_effects t opts) = (t, opts)) \<and>
   toString_effects X12Segment_toString_effects X12Transaction_toString_effects
       example_dso example_group None =
     (Inr ''GS*PO*A*B*20260101*1200*7*X*004010~/ST*850*0001~/BEG*00*1:2~/SE*3*0001~/GE*1*7~'',
      example_group)"
proof -
  have s: "\<And>s opts. snd (X12Segment_toString_effects s opts) = (s, opts)"
    by (simp add: X12Segment_toString_effects_def)
  have t: "\<And>t opts. snd (X12Transaction_toString_effects t opts) = (t, opts)"
    by (simp add: X12Transaction_toString_effects_def)
  have r: "fst (toString_effects X12Segment_toString_effects X12Transaction_toString_effects
       example_dso example_group None) =
     Inr ''GS*PO*A*B*20260101*1200*7*X*004010~/ST*850*0001~/BEG*00*1:2~/SE*3*0001~/GE*1*7~''"
    by (simp add: toString_effects_def Let_def X12Segment_toString_effects_def
        X12Transaction_toString_effects_def toString_loop_effects.simps store_options_def
        effective_def example_defs segment_defs)
  from toString_frame[of X12Segment_toString_effects X12Transaction_toString_effects
      example_dso example_group None, OF s t] s t r
  show ?thesis by (simp add: prod_eq_iff)
qed

text \<open>
  C8. Once \<^verbatim>\<open>setHeader\<close> has been called on a group, in particular on a freshly
  constructed one, every call in any sequence of \<^verbatim>\<open>addTransaction\<close> calls returns its
  transaction: the trailer it updates exists. On a freshly constructed group, before
  \<^verbatim>\<open>setHeader\<close>, \<^verbatim>\<open>addTransaction\<close> throws a \<^verbatim>\<open>TypeError\<close>, since there is no trailer yet.
\<close>

theorem header_before_children:
  "(\<forall>r \<in> set (fst (addTransactions dso (snd (setHeader dso absent g els oa)) oas)).
      \<exists>t. r = Inr t) \<and>
   fst (addTransaction dso (X12FunctionalGroup_new dso oa0) oa1) = Inl TypeError"
proof
  have "X12FunctionalGroup.trailer (snd (setHeader dso absent g els oa)) \<noteq> None"
    by (simp add: setHeader_trailer)
  then show "\<forall>r \<in> set (fst (addTransactions dso (snd (setHeader dso absent g els oa)) oas)).
      \<exists>t. r = Inr t"
    by (rule addTransactions_defined)
  show "fst (addTransaction dso (X12FunctionalGroup_new dso oa0) oa1) = Inl TypeError"
    by (simp add: addTransaction_def X12FunctionalGroup_new_def Let_def)
qed

theorem header_before_children_witness:
  "fst (addTransactions example_dso
          (snd (setHeader example_dso [] (X12FunctionalGroup_new example_dso None)
                  [''PO'', ''A'', ''B'', ''20260101'', ''1200'', ''7'', ''X'', ''004010''] None))
          [None, Some example_options])
     = [Inr (X12Transaction_new example_options), Inr (X12Transaction_new example_options)] \<and>
   fst (addTransaction example_dso (X12FunctionalGroup_new example_dso None) None) = Inl TypeError"
proof -
  have "fst (addTransactions example_dso
          (snd (setHeader example_dso [] (X12FunctionalGroup_new example_dso None)
                  [''PO'', ''A'', ''B'', ''20260101'', ''1200'', ''7'', ''X'', ''004010''] None))
          [None, Some example_options])
     = [Inr (X12Transaction_new example_options), Inr (X12Transaction_new example_options)]"
    by (simp add: group_defs segment_defs example_dso_def)
  with header_before_children[of example_dso "[]" "X12FunctionalGroup_new example_dso None"
      "[''PO'', ''A'', ''B'', ''20260101'', ''1200'', ''7'', ''X'', ''004010'']" None
      "[None, Some example_options]" None None]
  show ?thesis by simp
qed

text \<open>
  C9. \<^verbatim>\<open>toJSON\<close> emits, for every group that has its header and whose transactions have
  theirs, exactly the values of the group header's elements and, for each transaction in
  order, the values of its header's elements and the tag and element values of each body
  segment in order; on every other group it throws a \<^verbatim>\<open>TypeError\<close> and emits nothing.
  Trailers and sub-elements are not represented: removing them from the tree does not
  change the result.
\<close>

theorem toJSON_notation:
  "toJSON g =
     (if X12FunctionalGroup.header g = None
         \<or> None \<in> X12Transaction.header ` set (transactions g)
      then Inl TypeError
      else Inr \<lparr>JSEDIFunctionalGroup.headerElements =
                  map val (X12Segment.elements (the (X12FunctionalGroup.header g))),
                children =
                  map (\<lambda>t. transaction_notation (the (X12Transaction.header t)) t)
                    (transactions g)\<rparr>)
   \<and> toJSON (forget_group g) = toJSON g"
proof
  show "toJSON g =
     (if X12FunctionalGroup.header g = None
         \<or> None \<in> X12Transaction.header ` set (transactions g)
      then Inl TypeError
      else Inr \<lparr>JSEDIFunctionalGroup.headerElements =
                  map val (X12Segment.elements (the (X12FunctionalGroup.header g))),
                children =
                  map (\<lambda>t. transaction_notation (the (X12Transaction.header t)) t)
                    (transactions g)\<rparr>)"
    by (cases "X12FunctionalGroup.header g")
       (simp_all add: toJSON_def toJSON_transactions_total JSEDIFunctionalGroup_new_def)
  show "toJSON (forget_group g) = toJSON g"
    by (cases "X12FunctionalGroup.header g")
       (simp_all add: toJSON_def forget_group_def toJSON_transactions_forget forget_segment_sel)
qed

theorem toJSON_notation_witness:
  "toJSON example_group =
     Inr \<lparr>JSEDIFunctionalGroup.headerElements =
            [''PO'', ''A'', ''B'', ''20260101'', ''1200'', ''7'', ''X'', ''004010''],
          children =
            [\<lparr>JSEDITransaction.headerElements = [''850'', ''0001''],
              children = [\<lparr>JSEDISegment.tag = ''BEG'', elements = [''00'', ''1:2'']\<rparr>]\<rparr>]\<rparr> \<and>
   toJSON (X12FunctionalGroup_new example_dso None) = Inl TypeError"
  using toJSON_notation[of example_group]
    toJSON_notation[of "X12FunctionalGroup_new example_dso None"]
  by (simp add: example_defs X12Element_new_def transaction_notation_def segment_notation_def
        X12FunctionalGroup_new_def)

text \<open>
  C10. Every call of \<^verbatim>\<open>setHeader\<close> returns normally and sets header and trailer together:
  the header is a GS segment holding the given elements, the trailer is a GE segment
  whose first element is the current number of transactions as a decimal string and
  whose second element is the value of position 6 of the new header, which is the sixth
  given element when there are at least six; the transactions are not touched.
\<close>

theorem setHeader_establishes_pair:
  "fst (setHeader dso absent g els oa) = Inr () \<and>
   X12FunctionalGroup.header (snd (setHeader dso absent g els oa)) =
     Some \<lparr>X12Segment.tag = ''GS'', elements = map X12Element_new els\<rparr> \<and>
   X12FunctionalGroup.trailer (snd (setHeader dso absent g els oa)) =
     Some \<lparr>X12Segment.tag = ''GE'',
           elements =
             [X12Element_new (decimal (length (transactions g))),
              X12Element_new
                (valueOf absent
                   \<lparr>X12Segment.tag = ''GS'', elements = map X12Element_new els\<rparr> 6)]\<rparr> \<and>
   transactions (snd (setHeader dso absent g els oa)) = transactions g \<and>
   (6 \<le> length els \<longrightarrow>
      valueOf absent \<lparr>X12Segment.tag = ''GS'', elements = map X12Element_new els\<rparr> 6 = els ! 5)"
  by (simp add: setHeader_def setTrailer_def Let_def setElements_def X12Segment_new_def
        valueOf_def X12Element_new_def)

theorem setHeader_establishes_pair_witness:
  "(6::nat) \<le> length [''PO'', ''A'', ''B'', ''20260101'', ''1200'', ''7'', ''X'', ''004010''] \<and>
   X12FunctionalGroup.trailer
     (snd (setHeader example_dso [] example_group
             [''PO'', ''A'', ''B'', ''20260101'', ''1200'', ''7'', ''X'', ''004010''] None)) =
     Some \<lparr>X12Segment.tag = ''GE'', elements = map X12Element_new [''1'', ''7'']\<rparr>"
  using setHeader_establishes_pair[of example_dso "[]" example_group
      "[''PO'', ''A'', ''B'', ''20260101'', ''1200'', ''7'', ''X'', ''004010'']" None]
  by (simp add: example_group_def decimal.simps digit_def)

end
